theory Spec2Isabelle
  imports Main "HOL-Library.Word"
begin

unbundle bit_operations_syntax

section \<open>The native layer (cgo)\<close>

text \<open>
  The Go file reaches libnetfilter\_queue, libc and the C helpers of \<^verbatim>\<open>nfqueue.h\<close> through
  \<^verbatim>\<open>C.name\<close>. None of that code is Go, so it is a parameter of the model: a record holding
  the C macros the file reads and, for every C function it calls, the value that call
  returns for given arguments. Every operation modelled here calls each C function at most
  once, so a function of the arguments loses nothing. A C pointer is \<open>nat option\<close> with
  \<open>None\<close> for \<^verbatim>\<open>nil\<close>; a C \<^verbatim>\<open>int\<close> return code is read as its signed value.
  \<^verbatim>\<open>nfqueue_loop\<close> blocks; \<open>None\<close> is the loop that does not return.
\<close>

type_synonym ptr = "nat option"
type_synonym u8 = "8 word"
type_synonym u16 = "16 word"
type_synonym u32 = "32 word"

record native =
  C_NF_ACCEPT :: u32
  C_NF_DROP :: u32
  C_NFQNL_COPY_PACKET :: u8
  C_MAX_PACKET_SIZE :: u32
  C_nfq_open :: ptr
  C_nfqueue_create_queue :: "ptr \<Rightarrow> u16 \<Rightarrow> ptr"
  C_nfq_set_mode :: "ptr \<Rightarrow> u8 \<Rightarrow> u32 \<Rightarrow> int"
  C_nfq_set_queue_maxlen :: "ptr \<Rightarrow> u32 \<Rightarrow> int"
  C_nfq_set_queue_flags :: "ptr \<Rightarrow> u32 \<Rightarrow> u32 \<Rightarrow> int"
  C_nfq_fd :: "ptr \<Rightarrow> int"
  C_nfq_nfnlh :: "ptr \<Rightarrow> ptr"
  C_nfnl_rcvbufsiz :: "ptr \<Rightarrow> u32 \<Rightarrow> u32"
  C_nfqueue_loop :: "ptr \<Rightarrow> int \<Rightarrow> int option"
  C_close :: "int \<Rightarrow> int"
  C_nfq_destroy_queue :: "ptr \<Rightarrow> int"
  C_nfq_close :: "ptr \<Rightarrow> int"
  C_nfq_set_verdict :: "ptr \<Rightarrow> u32 \<Rightarrow> u32 \<Rightarrow> u32 \<Rightarrow> u8 list option \<Rightarrow> int"

text \<open>The native calls an operation makes, in the order it makes them, with their arguments.\<close>

datatype call =
  Call_nfq_open
| Call_nfqueue_create_queue ptr u16
| Call_nfq_set_mode ptr u8 u32
| Call_nfq_set_queue_maxlen ptr u32
| Call_nfq_set_queue_flags ptr u32 u32
| Call_nfq_fd ptr
| Call_nfq_nfnlh ptr
| Call_nfnl_rcvbufsiz ptr u32
| Call_nfqueue_loop ptr int
| Call_close int
| Call_nfq_destroy_queue ptr
| Call_nfq_close ptr
| Call_nfq_set_verdict ptr u32 u32 u32 "u8 list option"

section \<open>Results of a Go call\<close>

text \<open>
  A method returning \<^verbatim>\<open>error\<close> returns \<^verbatim>\<open>nil\<close> or an error with a message, raises a
  run-time panic, or (for \<^verbatim>\<open>Start\<close>) stays blocked in the receive loop.
\<close>

datatype panic = IndexOutOfRange nat nat | NilDereference

datatype go_result =
  is_nil: Return_nil
| is_error: Return_error string
| is_panic: Panic panic
| is_blocked: Blocked

section \<open>Queue configuration and the queue\<close>

type_synonym QueueFlag = u32

definition FailOpen :: QueueFlag where "FailOpen = push_bit 0 1"
definition Conntrack :: QueueFlag where "Conntrack = push_bit 1 1"
definition GSO :: QueueFlag where "GSO = push_bit 2 1"
definition UIDGid :: QueueFlag where "UIDGid = push_bit 3 1"
definition Secctx :: QueueFlag where "Secctx = push_bit 4 1"

record QueueConfig =
  MaxPackets :: u32
  QueueFlags :: "QueueFlag list"
  BufferSize :: u32

text \<open>
  \<^verbatim>\<open>cfg\<close> is a pointer in the source: \<open>None\<close> is \<^verbatim>\<open>nil\<close>. The configuration is held by
  value, since nothing modelled here writes to it.
\<close>

record 'h Queue =
  ID :: u16
  handler :: 'h
  cfg :: "QueueConfig option"
  h :: ptr
  qh :: ptr
  fd :: int

section \<open>Start and Stop\<close>

text \<open>
  The flag loop of \<^verbatim>\<open>Start\<close>: \<^verbatim>\<open>var flags C.uint32_t\<close> starts at its zero value and
  every requested flag is folded in with \<^verbatim>\<open>&=\<close>.
\<close>

definition fold_flags :: "QueueFlag list \<Rightarrow> u32" where
  "fold_flags fs = foldl (\<lambda>flags flag. flags AND flag) 0 fs"

text \<open>
  \<^verbatim>\<open>Start\<close> returns its result, the queue with the fields it assigned, and the native
  calls it made.
\<close>

definition Start :: "native \<Rightarrow> 'h Queue \<Rightarrow> go_result \<times> 'h Queue \<times> call list" where
  "Start n q0 =
    (let q1 = q0\<lparr>h := C_nfq_open n\<rparr>;
         t1 = [Call_nfq_open]
     in if h q1 = None then (Return_error ''Error in nfq_open'', q1, t1)
     else
     let q2 = q1\<lparr>qh := C_nfqueue_create_queue n (h q1) (ID q1)\<rparr>;
         t2 = t1 @ [Call_nfqueue_create_queue (h q1) (ID q1)]
     in if qh q2 = None then (Return_error ''Error in nfqueue_create_queue'', q2, t2)
     else
     let t3 = t2 @ [Call_nfq_set_mode (qh q2) (C_NFQNL_COPY_PACKET n) (C_MAX_PACKET_SIZE n)]
     in if C_nfq_set_mode n (qh q2) (C_NFQNL_COPY_PACKET n) (C_MAX_PACKET_SIZE n) < 0
        then (Return_error ''Error in nfq_set_mode'', q2, t3)
     else
     case cfg q2 of
       None \<Rightarrow> (Panic NilDereference, q2, t3)
     | Some c \<Rightarrow>
     let t4 = (if 0 < MaxPackets c
               then t3 @ [Call_nfq_set_queue_maxlen (qh q2) (MaxPackets c)] else t3)
     in if 0 < MaxPackets c \<and> C_nfq_set_queue_maxlen n (qh q2) (MaxPackets c) < 0
        then (Return_error ''Error in nfq_set_queue_maxlen'', q2, t4)
     else
     let flags = fold_flags (QueueFlags c);
         t5 = (if QueueFlags c \<noteq> []
               then t4 @ [Call_nfq_set_queue_flags (qh q2) flags flags] else t4)
     in if QueueFlags c \<noteq> [] \<and> C_nfq_set_queue_flags n (qh q2) flags flags < 0
        then (Return_error ''Error in nfq_set_queue_flags'', q2, t5)
     else
     let q3 = q2\<lparr>fd := C_nfq_fd n (h q2)\<rparr>;
         t6 = t5 @ [Call_nfq_fd (h q2)]
     in if fd q3 < 0 then (Return_error ''Error in nfq_fd'', q3, t6)
     else
     let t7 = (if 0 < BufferSize c
               then t6 @ [Call_nfq_nfnlh (h q3),
                          Call_nfnl_rcvbufsiz (C_nfq_nfnlh n (h q3)) (BufferSize c)]
               else t6);
         t8 = t7 @ [Call_nfqueue_loop (h q3) (fd q3)]
     in (case C_nfqueue_loop n (h q3) (fd q3) of
           None \<Rightarrow> (Blocked, q3, t8)
         | Some ret \<Rightarrow>
             if ret < 0 then (Return_error ''Error in nfqueue_loop'', q3, t8)
             else (Return_nil, q3, t8)))"

definition Stop :: "native \<Rightarrow> 'h Queue \<Rightarrow> go_result \<times> call list" where
  "Stop n q0 =
    (if C_close n (fd q0) < 0 then (Return_error ''Error closing fd'', [Call_close (fd q0)])
     else if C_nfq_destroy_queue n (qh q0) < 0
       then (Return_error ''Error in nfq_destroy_queue'',
             [Call_close (fd q0), Call_nfq_destroy_queue (qh q0)])
     else if C_nfq_close n (h q0) < 0
       then (Return_error ''Error in nfq_close'',
             [Call_close (fd q0), Call_nfq_destroy_queue (qh q0), Call_nfq_close (h q0)])
     else (Return_nil,
             [Call_close (fd q0), Call_nfq_destroy_queue (qh q0), Call_nfq_close (h q0)]))"

section \<open>Packets and verdicts\<close>

record PacketMeta =
  HasUID :: bool
  HasGID :: bool
  UID :: u32
  GID :: u32
  InDev :: u32
  OutDev :: u32
  PhysInDev :: u32
  PhysOutDev :: u32
  NFMark :: u32
  HWAddr :: "u8 list"

text \<open>
  The source's field \<^verbatim>\<open>id\<close> is \<open>packet_id\<close> here. \<^verbatim>\<open>Meta\<close> and \<^verbatim>\<open>q\<close> are pointers:
  \<open>None\<close> is \<^verbatim>\<open>nil\<close>.
\<close>

record 'h Packet =
  Buffer :: "u8 list"
  Meta :: "PacketMeta option"
  packet_id :: u32
  q :: "'h Queue option"

text \<open>\<^verbatim>\<open>%d\<close> of an unsigned integer: its decimal digits, no padding.\<close>

fun fmt_d :: "nat \<Rightarrow> string" where
  "fmt_d k = (if k < 10 then [''0123456789'' ! k]
              else fmt_d (k div 10) @ [''0123456789'' ! (k mod 10)])"

declare fmt_d.simps [simp del]

definition setVerdict ::
  "native \<Rightarrow> 'h Packet \<Rightarrow> u32 \<Rightarrow> u32 \<Rightarrow> u8 list option \<Rightarrow> go_result \<times> call list" where
  "setVerdict n p verdict len buffer =
    (case q p of
       None \<Rightarrow> (Panic NilDereference, [])
     | Some pq \<Rightarrow>
         (if C_nfq_set_verdict n (qh pq) (packet_id p) verdict len buffer < 0
            then Return_error (''Error setting verdict '' @ fmt_d (unat verdict) @
                               '' for packet '' @ fmt_d (unat (packet_id p)))
            else Return_nil,
          [Call_nfq_set_verdict (qh pq) (packet_id p) verdict len buffer]))"

definition Accept :: "native \<Rightarrow> 'h Packet \<Rightarrow> go_result \<times> call list" where
  "Accept n p = setVerdict n p (C_NF_ACCEPT n) 0 None"

definition Drop :: "native \<Rightarrow> 'h Packet \<Rightarrow> go_result \<times> call list" where
  "Drop n p = setVerdict n p (C_NF_DROP n) 0 None"

text \<open>
  \<^verbatim>\<open>&buffer[0]\<close> is evaluated with the other arguments, before \<^verbatim>\<open>setVerdict\<close> is entered:
  on an empty slice the index expression panics. \<^verbatim>\<open>C.u_int32_t(len(buffer))\<close> keeps the
  low 32 bits of the length.
\<close>

definition Modify :: "native \<Rightarrow> 'h Packet \<Rightarrow> u8 list \<Rightarrow> go_result \<times> call list" where
  "Modify n p buffer =
    (if buffer = [] then (Panic (IndexOutOfRange 0 0), [])
     else setVerdict n p (C_NF_ACCEPT n) (of_nat (length buffer)) (Some buffer))"

section \<open>Packet metadata\<close>

text \<open>
  \<^verbatim>\<open>net.InterfaceByIndex\<close> belongs to Go's standard library: it is a parameter, returning
  the error (\<open>Inl\<close>) or the interface. \<^verbatim>\<open>int(m.InDev)\<close> is the unsigned value of the index
  (Go's \<^verbatim>\<open>int\<close> has 64 bits on the platforms the library builds for).
\<close>

record Interface =
  Index :: int
  Name :: string

type_synonym InterfaceByIndex = "int \<Rightarrow> string + Interface"

definition InDevName :: "InterfaceByIndex \<Rightarrow> PacketMeta \<Rightarrow> string" where
  "InDevName net m =
    (case net (uint (InDev m)) of Inl err \<Rightarrow> '''' | Inr iface \<Rightarrow> Name iface)"

definition OutDevName :: "InterfaceByIndex \<Rightarrow> PacketMeta \<Rightarrow> string" where
  "OutDevName net m =
    (case net (uint (OutDev m)) of Inl err \<Rightarrow> '''' | Inr iface \<Rightarrow> Name iface)"

definition PhysInDevName :: "InterfaceByIndex \<Rightarrow> PacketMeta \<Rightarrow> string" where
  "PhysInDevName net m =
    (case net (uint (PhysInDev m)) of Inl err \<Rightarrow> '''' | Inr iface \<Rightarrow> Name iface)"

definition PhysOutDevName :: "InterfaceByIndex \<Rightarrow> PacketMeta \<Rightarrow> string" where
  "PhysOutDevName net m =
    (case net (uint (PhysOutDev m)) of Inl err \<Rightarrow> '''' | Inr iface \<Rightarrow> Name iface)"

text \<open>
  \<^verbatim>\<open>%02X\<close> of a byte: two upper-case hexadecimal digits. The six index expressions of
  \<^verbatim>\<open>MACAddr\<close> are evaluated left to right, so on a slice of fewer than six bytes the first
  index out of range is the length of the slice, and the call panics there.
\<close>

definition hex_upper :: "nat \<Rightarrow> char" where
  "hex_upper d = ''0123456789ABCDEF'' ! d"

definition fmt_02X :: "u8 \<Rightarrow> string" where
  "fmt_02X b = [hex_upper (unat b div 16), hex_upper (unat b mod 16)]"

definition MACAddr :: "PacketMeta \<Rightarrow> panic + string" where
  "MACAddr m =
    (if length (HWAddr m) < 6
     then Inl (IndexOutOfRange (length (HWAddr m)) (length (HWAddr m)))
     else Inr (fmt_02X (HWAddr m ! 0) @ '':'' @ fmt_02X (HWAddr m ! 1) @ '':'' @
               fmt_02X (HWAddr m ! 2) @ '':'' @ fmt_02X (HWAddr m ! 3) @ '':'' @
               fmt_02X (HWAddr m ! 4) @ '':'' @ fmt_02X (HWAddr m ! 5)))"

section \<open>The registry and NewQueue\<close>

text \<open>
  Modelled from the spec: the registry (\<^verbatim>\<open>queueRegistry\<close>, its \<^verbatim>\<open>Register\<close> and its
  lookup) is defined in a file of the repository that is not among the sources.
  The spec: \<^verbatim>\<open>Register(id, queue)\<close> unconditionally overwrites any existing entry for
  \<^verbatim>\<open>id\<close> (no error signaled); \<^verbatim>\<open>Lookup(id)\<close> returns the queue or "not found".
  A queue instance is a Go pointer: an address in a heap of queues.
\<close>

type_synonym registry = "u16 \<Rightarrow> nat option"

definition Register :: "registry \<Rightarrow> u16 \<Rightarrow> nat \<Rightarrow> registry" where
  "Register r i a = r(i \<mapsto> a)"

definition Lookup :: "registry \<Rightarrow> u16 \<Rightarrow> nat option" where
  "Lookup r i = r i"

text \<open>
  The process state \<^verbatim>\<open>NewQueue\<close> works on: the allocated queues (an address is an index
  in the list, and \<^verbatim>\<open>&Queue{...}\<close> allocates the next one) and the package-level registry.
  Fields the composite literal leaves out have their zero values.
\<close>

record 'h world =
  heap :: "'h Queue list"
  queueRegistry :: registry

definition NewQueue ::
  "'h world \<Rightarrow> u16 \<Rightarrow> 'h \<Rightarrow> QueueConfig option \<Rightarrow> nat \<times> 'h world" where
  "NewQueue w queueID hdl cfg0 =
    (let cfg1 = (case cfg0 of
                   None \<Rightarrow> \<lparr>MaxPackets = 0, QueueFlags = [], BufferSize = 0\<rparr>
                 | Some c \<Rightarrow> c);
         nq = \<lparr>ID = queueID, handler = hdl, cfg = Some cfg1, h = None, qh = None, fd = 0\<rparr>;
         a = length (heap w)
     in (a, w\<lparr>heap := heap w @ [nq],
               queueRegistry := Register (queueRegistry w) queueID a\<rparr>))"

section \<open>Fail-fast execution of a list of native steps\<close>

text \<open>
  How the callers read the value a native call returns: a nil pointer or a negative
  return code is a failure; the two calls of the buffer-size step are not tested; the
  loop may not return.
\<close>

datatype step_result = Step_ok | Step_failed | Step_blocked

fun call_result :: "native \<Rightarrow> call \<Rightarrow> step_result" where
  "call_result n Call_nfq_open = (if C_nfq_open n = None then Step_failed else Step_ok)"
| "call_result n (Call_nfqueue_create_queue p i) =
     (if C_nfqueue_create_queue n p i = None then Step_failed else Step_ok)"
| "call_result n (Call_nfq_set_mode p m r) =
     (if C_nfq_set_mode n p m r < 0 then Step_failed else Step_ok)"
| "call_result n (Call_nfq_set_queue_maxlen p k) =
     (if C_nfq_set_queue_maxlen n p k < 0 then Step_failed else Step_ok)"
| "call_result n (Call_nfq_set_queue_flags p m f) =
     (if C_nfq_set_queue_flags n p m f < 0 then Step_failed else Step_ok)"
| "call_result n (Call_nfq_fd p) = (if C_nfq_fd n p < 0 then Step_failed else Step_ok)"
| "call_result n (Call_nfq_nfnlh p) = Step_ok"
| "call_result n (Call_nfnl_rcvbufsiz p k) = Step_ok"
| "call_result n (Call_nfqueue_loop p d) =
     (case C_nfqueue_loop n p d of
        None \<Rightarrow> Step_blocked
      | Some ret \<Rightarrow> if ret < 0 then Step_failed else Step_ok)"
| "call_result n (Call_close d) = (if C_close n d < 0 then Step_failed else Step_ok)"
| "call_result n (Call_nfq_destroy_queue p) =
     (if C_nfq_destroy_queue n p < 0 then Step_failed else Step_ok)"
| "call_result n (Call_nfq_close p) = (if C_nfq_close n p < 0 then Step_failed else Step_ok)"
| "call_result n (Call_nfq_set_verdict p i v l b) =
     (if C_nfq_set_verdict n p i v l b < 0 then Step_failed else Step_ok)"

text \<open>The error of each step: one message per native call that is tested.\<close>

fun call_error :: "call \<Rightarrow> string" where
  "call_error Call_nfq_open = ''Error in nfq_open''"
| "call_error (Call_nfqueue_create_queue p i) = ''Error in nfqueue_create_queue''"
| "call_error (Call_nfq_set_mode p m r) = ''Error in nfq_set_mode''"
| "call_error (Call_nfq_set_queue_maxlen p k) = ''Error in nfq_set_queue_maxlen''"
| "call_error (Call_nfq_set_queue_flags p m f) = ''Error in nfq_set_queue_flags''"
| "call_error (Call_nfq_fd p) = ''Error in nfq_fd''"
| "call_error (Call_nfq_nfnlh p) = ''''"
| "call_error (Call_nfnl_rcvbufsiz p k) = ''''"
| "call_error (Call_nfqueue_loop p d) = ''Error in nfqueue_loop''"
| "call_error (Call_close d) = ''Error closing fd''"
| "call_error (Call_nfq_destroy_queue p) = ''Error in nfq_destroy_queue''"
| "call_error (Call_nfq_close p) = ''Error in nfq_close''"
| "call_error (Call_nfq_set_verdict p i v l b) =
     ''Error setting verdict '' @ fmt_d (unat v) @ '' for packet '' @ fmt_d (unat i)"

text \<open>
  Running a list of steps in order, stopping at the first that fails (or blocks):
  the result and the calls made.
\<close>

fun run_steps :: "native \<Rightarrow> call list \<Rightarrow> go_result \<times> call list" where
  "run_steps n [] = (Return_nil, [])"
| "run_steps n (c # cs) =
     (case call_result n c of
        Step_failed \<Rightarrow> (Return_error (call_error c), [c])
      | Step_blocked \<Rightarrow> (Blocked, [c])
      | Step_ok \<Rightarrow> (fst (run_steps n cs), c # snd (run_steps n cs)))"

text \<open>
  The steps of the spec's start path, in its order: open context, bind queue id, set
  mode, set queue depth (if requested), set flags (if any), get descriptor, set buffer
  size (if requested), run loop.
\<close>

definition spec_Start_steps :: "native \<Rightarrow> 'h Queue \<Rightarrow> QueueConfig \<Rightarrow> call list" where
  "spec_Start_steps n q0 c =
    (let hp = C_nfq_open n;
         qp = C_nfqueue_create_queue n hp (ID q0);
         d = C_nfq_fd n hp
     in [Call_nfq_open,
         Call_nfqueue_create_queue hp (ID q0),
         Call_nfq_set_mode qp (C_NFQNL_COPY_PACKET n) (C_MAX_PACKET_SIZE n)]
        @ (if 0 < MaxPackets c then [Call_nfq_set_queue_maxlen qp (MaxPackets c)] else [])
        @ (if QueueFlags c \<noteq> []
           then [Call_nfq_set_queue_flags qp (fold_flags (QueueFlags c))
                   (fold_flags (QueueFlags c))]
           else [])
        @ [Call_nfq_fd hp]
        @ (if 0 < BufferSize c
           then [Call_nfq_nfnlh hp, Call_nfnl_rcvbufsiz (C_nfq_nfnlh n hp) (BufferSize c)]
           else [])
        @ [Call_nfqueue_loop hp d])"

definition spec_Stop_steps :: "'h Queue \<Rightarrow> call list" where
  "spec_Stop_steps q0 =
    [Call_close (fd q0), Call_nfq_destroy_queue (qh q0), Call_nfq_close (h q0)]"

text \<open>The calls that release a resource.\<close>

fun is_release :: "call \<Rightarrow> bool" where
  "is_release (Call_close d) = True"
| "is_release (Call_nfq_destroy_queue p) = True"
| "is_release (Call_nfq_close p) = True"
| "is_release other = False"

text \<open>Reading an upper-case hexadecimal digit and a decimal number back.\<close>

definition hex_value :: "char \<Rightarrow> nat option" where
  "hex_value ch =
    (let k = (of_char ch :: nat)
     in if 48 \<le> k \<and> k \<le> 57 then Some (k - 48)
        else if 65 \<le> k \<and> k \<le> 70 then Some (k - 55)
        else None)"

definition read_d :: "string \<Rightarrow> nat" where
  "read_d s = foldl (\<lambda>acc ch. 10 * acc + (of_char ch - 48)) 0 s"

section \<open>Concrete inputs\<close>

text \<open>
  A native layer in which every call succeeds and the loop returns 0, and variants in
  which one call fails. The macro values are those of the Linux headers.
\<close>

definition native_ok :: native where
  "native_ok =
    \<lparr>C_NF_ACCEPT = 1, C_NF_DROP = 0, C_NFQNL_COPY_PACKET = 2, C_MAX_PACKET_SIZE = 65535,
     C_nfq_open = Some 1,
     C_nfqueue_create_queue = (\<lambda>hp i. Some 2),
     C_nfq_set_mode = (\<lambda>p m r. 0),
     C_nfq_set_queue_maxlen = (\<lambda>p k. 0),
     C_nfq_set_queue_flags = (\<lambda>p m f. 0),
     C_nfq_fd = (\<lambda>p. 3),
     C_nfq_nfnlh = (\<lambda>p. Some 4),
     C_nfnl_rcvbufsiz = (\<lambda>p k. k),
     C_nfqueue_loop = (\<lambda>p d. Some 0),
     C_close = (\<lambda>d. 0),
     C_nfq_destroy_queue = (\<lambda>p. 0),
     C_nfq_close = (\<lambda>p. 0),
     C_nfq_set_verdict = (\<lambda>p i v l b. 0)\<rparr>"

definition native_close_fails :: native where
  "native_close_fails = native_ok\<lparr>C_close := (\<lambda>d. - 1)\<rparr>"

definition native_flags_fail :: native where
  "native_flags_fail = native_ok\<lparr>C_nfq_set_queue_flags := (\<lambda>p m f. - 1)\<rparr>"

definition native_verdict_fails :: native where
  "native_verdict_fails = native_ok\<lparr>C_nfq_set_verdict := (\<lambda>p i v l b. - 1)\<rparr>"

definition native_destroy_fails :: native where
  "native_destroy_fails = native_ok\<lparr>C_nfq_destroy_queue := (\<lambda>p. - 1)\<rparr>"

definition native_nfq_close_fails :: native where
  "native_nfq_close_fails = native_ok\<lparr>C_nfq_close := (\<lambda>p. - 1)\<rparr>"

definition cfg_example :: QueueConfig where
  "cfg_example = \<lparr>MaxPackets = 100, QueueFlags = [Conntrack, UIDGid], BufferSize = 4096\<rparr>"

definition queue_example :: "unit Queue" where
  "queue_example =
    \<lparr>ID = 7, handler = (), cfg = Some cfg_example, h = None, qh = None, fd = 0\<rparr>"

definition queue_started :: "unit Queue" where
  "queue_started = queue_example\<lparr>h := Some 1, qh := Some 2, fd := 3\<rparr>"

definition meta_example :: PacketMeta where
  "meta_example =
    \<lparr>HasUID = False, HasGID = False, UID = 0, GID = 0, InDev = 1, OutDev = 9,
     PhysInDev = 0, PhysOutDev = 0, NFMark = 0,
     HWAddr = [0xAA, 0xBB, 0xCC, 0xDD, 0xEE, 0xFF]\<rparr>"

definition meta_other :: PacketMeta where
  "meta_other = meta_example\<lparr>InDev := 9, OutDev := 1, PhysInDev := 1, PhysOutDev := 1\<rparr>"

definition packet_example :: "unit Packet" where
  "packet_example =
    \<lparr>Buffer = [0x45, 0x00], Meta = Some meta_example, packet_id = 42,
     q = Some queue_started\<rparr>"

definition net_example :: InterfaceByIndex where
  "net_example i = (if i = 1 then Inr \<lparr>Index = 1, Name = ''lo''\<rparr>
                    else Inl ''no such network interface'')"

section \<open>Lemmas about fail-fast execution\<close>

lemma run_steps_prefix: "\<exists>ys. cs = snd (run_steps n cs) @ ys"
  by (induction cs) (auto split: step_result.splits)

lemma run_steps_butlast_ok:
  "\<forall>x \<in> set (butlast (snd (run_steps n cs))). call_result n x = Step_ok"
  by (induction cs) (auto split: step_result.splits)

lemma run_steps_error:
  "fst (run_steps n cs) = Return_error e \<Longrightarrow>
   snd (run_steps n cs) \<noteq> [] \<and> call_result n (last (snd (run_steps n cs))) = Step_failed \<and>
   e = call_error (last (snd (run_steps n cs)))"
  by (induction cs) (auto split: step_result.splits)

lemma run_steps_nil:
  "fst (run_steps n cs) = Return_nil \<Longrightarrow> snd (run_steps n cs) = cs"
  by (induction cs) (auto split: step_result.splits)

lemma run_steps_no_panic: "\<not> is_panic (fst (run_steps n cs))"
  by (induction cs) (auto split: step_result.splits)

lemma call_error_failed_nonempty: "call_result n x = Step_failed \<Longrightarrow> call_error x \<noteq> []"
  by (cases x) simp_all

section \<open>Decimal and hexadecimal digits read back\<close>

lemma digit_char: "d < 10 \<Longrightarrow> (of_char (''0123456789'' ! d) :: nat) = 48 + d"
proof -
  assume "d < 10"
  then have "d = 0 \<or> d = 1 \<or> d = 2 \<or> d = 3 \<or> d = 4 \<or> d = 5 \<or> d = 6 \<or> d = 7 \<or> d = 8 \<or> d = 9"
    by arith
  then show ?thesis by auto
qed

lemma read_d_snoc: "read_d (s @ [ch]) = 10 * read_d s + (of_char ch - 48)"
  by (simp add: read_d_def)

lemma read_d_fmt_d: "read_d (fmt_d k) = k"
proof (induction k rule: fmt_d.induct)
  case (1 k)
  show ?case
  proof (cases "k < 10")
    case True
    then show ?thesis
      by (subst fmt_d.simps) (simp add: read_d_def digit_char)
  next
    case False
    have m: "k mod 10 < 10" by simp
    from False 1 have ih: "read_d (fmt_d (k div 10)) = k div 10" by simp
    from False show ?thesis
      by (subst fmt_d.simps) (simp add: read_d_snoc ih digit_char [OF m])
  qed
qed

lemma hex_value_hex_upper: "d < 16 \<Longrightarrow> hex_value (hex_upper d) = Some d"
proof -
  assume "d < 16"
  then have "d = 0 \<or> d = 1 \<or> d = 2 \<or> d = 3 \<or> d = 4 \<or> d = 5 \<or> d = 6 \<or> d = 7 \<or> d = 8 \<or> d = 9
     \<or> d = 10 \<or> d = 11 \<or> d = 12 \<or> d = 13 \<or> d = 14 \<or> d = 15"
    by arith
  then show ?thesis by (auto simp: hex_value_def hex_upper_def)
qed

lemma fmt_02X_digits:
  "hex_value (hex_upper (unat (b :: u8) div 16)) = Some (unat b div 16)"
  "hex_value (hex_upper (unat (b :: u8) mod 16)) = Some (unat b mod 16)"
proof -
  have "unat b < 256" using unsigned_less [of b] by simp
  then have "unat b div 16 < 16" by arith
  then show "hex_value (hex_upper (unat b div 16)) = Some (unat b div 16)"
    by (rule hex_value_hex_upper)
  show "hex_value (hex_upper (unat b mod 16)) = Some (unat b mod 16)"
    by (rule hex_value_hex_upper) simp
qed

section \<open>Start\<close>

text \<open>
  With a configuration present, \<^verbatim>\<open>Start\<close> is the fail-fast execution of the spec's steps.
\<close>

lemma Start_run_steps:
  "cfg qu = Some c \<Longrightarrow>
   (fst (Start n qu), snd (snd (Start n qu))) = run_steps n (spec_Start_steps n qu c)"
  by (simp add: Start_def spec_Start_steps_def Let_def split: option.splits)

lemma Start_no_release: "x \<in> set (snd (snd (Start n qu))) \<Longrightarrow> \<not> is_release x"
  by (auto simp: Start_def Let_def split: option.splits if_splits)

lemma spec_Start_steps_errors_distinct:
  "x \<in> set (spec_Start_steps n qu c) \<Longrightarrow> y \<in> set (spec_Start_steps n qu c) \<Longrightarrow>
   call_error x = call_error y \<Longrightarrow> call_error x \<noteq> [] \<Longrightarrow> x = y"
  by (auto simp: spec_Start_steps_def Let_def split: if_splits)

lemma fold_flags_zero: "fold_flags fs = 0"
  unfolding fold_flags_def by (induction fs) simp_all

lemma Start_flags_fail_eval:
  "Start native_flags_fail queue_example =
    (Return_error ''Error in nfq_set_queue_flags'',
     queue_example\<lparr>h := Some 1, qh := Some 2\<rparr>,
     [Call_nfq_open, Call_nfqueue_create_queue (Some 1) 7,
      Call_nfq_set_mode (Some 2) 2 65535,
      Call_nfq_set_queue_maxlen (Some 2) 100,
      Call_nfq_set_queue_flags (Some 2) 0 0])"
  by (simp add: Start_def Let_def native_flags_fail_def native_ok_def
      queue_example_def cfg_example_def Conntrack_def UIDGid_def fold_flags_def)

lemma Start_ok_eval:
  "Start native_ok queue_example =
    (Return_nil,
     queue_example\<lparr>h := Some 1, qh := Some 2, fd := 3\<rparr>,
     [Call_nfq_open, Call_nfqueue_create_queue (Some 1) 7,
      Call_nfq_set_mode (Some 2) 2 65535,
      Call_nfq_set_queue_maxlen (Some 2) 100,
      Call_nfq_set_queue_flags (Some 2) 0 0,
      Call_nfq_fd (Some 1), Call_nfq_nfnlh (Some 1),
      Call_nfnl_rcvbufsiz (Some 4) 4096, Call_nfqueue_loop (Some 1) 3])"
  by (simp add: Start_def Let_def native_ok_def
      queue_example_def cfg_example_def Conntrack_def UIDGid_def fold_flags_def)

text \<open>
  Claim C4. \<^verbatim>\<open>Start\<close> performs its steps in the fixed order open context, bind queue id,
  set mode, set queue depth, set flags, get descriptor, set buffer size, run loop: the
  calls it makes are an initial segment of that list. Every call before the last one made
  succeeded; when \<^verbatim>\<open>Start\<close> returns an error, the last call made is the one that failed,
  the error is that step's own, and no later step was executed; when it returns
  \<^verbatim>\<open>nil\<close> all steps were executed. No call that releases a resource (close descriptor,
  destroy binding, close context) is ever made, and two different steps that can fail
  never share an error.
\<close>

theorem Start_aborts_at_first_failure:
  assumes "cfg qu = Some c"
  shows "(\<exists>ys. spec_Start_steps n qu c = snd (snd (Start n qu)) @ ys) \<and>
         (\<forall>x \<in> set (butlast (snd (snd (Start n qu)))). call_result n x = Step_ok) \<and>
         (\<forall>e. fst (Start n qu) = Return_error e \<longrightarrow>
            snd (snd (Start n qu)) \<noteq> [] \<and>
            call_result n (last (snd (snd (Start n qu)))) = Step_failed \<and>
            e = call_error (last (snd (snd (Start n qu))))) \<and>
         (fst (Start n qu) = Return_nil \<longrightarrow> snd (snd (Start n qu)) = spec_Start_steps n qu c) \<and>
         (\<forall>x \<in> set (snd (snd (Start n qu))). \<not> is_release x) \<and>
         (\<forall>x \<in> set (spec_Start_steps n qu c). \<forall>y \<in> set (spec_Start_steps n qu c).
            call_result n x = Step_failed \<and> call_error x = call_error y \<longrightarrow> x = y) \<and>
         \<not> is_panic (fst (Start n qu))"
proof -
  let ?cs = "spec_Start_steps n qu c"
  have r: "fst (Start n qu) = fst (run_steps n ?cs)"
    using Start_run_steps [OF assms, of n] by (simp add: prod_eq_iff)
  have t: "snd (snd (Start n qu)) = snd (run_steps n ?cs)"
    using Start_run_steps [OF assms, of n] by (simp add: prod_eq_iff)
  have 1: "\<exists>ys. ?cs = snd (snd (Start n qu)) @ ys"
    unfolding t by (rule run_steps_prefix)
  have 2: "\<forall>x \<in> set (butlast (snd (snd (Start n qu)))). call_result n x = Step_ok"
    unfolding t by (rule run_steps_butlast_ok)
  have 3: "\<forall>e. fst (Start n qu) = Return_error e \<longrightarrow>
            snd (snd (Start n qu)) \<noteq> [] \<and>
            call_result n (last (snd (snd (Start n qu)))) = Step_failed \<and>
            e = call_error (last (snd (snd (Start n qu))))"
    unfolding r t using run_steps_error by blast
  have 4: "fst (Start n qu) = Return_nil \<longrightarrow> snd (snd (Start n qu)) = ?cs"
    unfolding r t using run_steps_nil by blast
  have 5: "\<forall>x \<in> set (snd (snd (Start n qu))). \<not> is_release x"
    using Start_no_release by blast
  have 6: "\<forall>x \<in> set ?cs. \<forall>y \<in> set ?cs.
            call_result n x = Step_failed \<and> call_error x = call_error y \<longrightarrow> x = y"
    using spec_Start_steps_errors_distinct call_error_failed_nonempty by blast
  have 7: "\<not> is_panic (fst (Start n qu))"
    unfolding r by (rule run_steps_no_panic)
  from 1 2 3 4 5 6 7 show ?thesis by blast
qed

text \<open>
  The theorem at a queue with every option set: once with a native layer whose
  \<^verbatim>\<open>nfq_set_queue_flags\<close> fails, once with one in which every call succeeds.
\<close>

theorem Start_aborts_at_first_failure_witness:
  "cfg queue_example = Some cfg_example \<and>
   fst (Start native_flags_fail queue_example) = Return_error ''Error in nfq_set_queue_flags'' \<and>
   snd (snd (Start native_flags_fail queue_example)) \<noteq> [] \<and>
   call_result native_flags_fail (last (snd (snd (Start native_flags_fail queue_example))))
     = Step_failed \<and>
   ''Error in nfq_set_queue_flags''
     = call_error (last (snd (snd (Start native_flags_fail queue_example)))) \<and>
   fst (Start native_ok queue_example) = Return_nil \<and>
   snd (snd (Start native_ok queue_example)) = spec_Start_steps native_ok queue_example cfg_example"
proof -
  have c: "cfg queue_example = Some cfg_example"
    by (simp add: queue_example_def)
  have e: "fst (Start native_flags_fail queue_example) = Return_error ''Error in nfq_set_queue_flags''"
    by (simp add: Start_flags_fail_eval)
  have k: "fst (Start native_ok queue_example) = Return_nil"
    by (simp add: Start_ok_eval)
  from Start_aborts_at_first_failure [OF c, of native_flags_fail]
       Start_aborts_at_first_failure [OF c, of native_ok] c e k
  show ?thesis by blast
qed

text \<open>
  Claim C1 says that the mask \<^verbatim>\<open>Start\<close> applies is the bitwise OR of the requested flags,
  so that connection tracking with uid/gid dump gives \<open>Conntrack OR UIDGid\<close>. The loop folds
  with AND from zero: for these two flags the mask is 0, not 10, and 0 is what
  \<^verbatim>\<open>nfq_set_queue_flags\<close> receives, as mask and as flags.
\<close>

theorem Start_flags_folded_with_AND:
  "fold_flags [Conntrack, UIDGid] = 0 \<and> Conntrack OR UIDGid = 10 \<and>
   snd (snd (Start native_ok queue_example)) ! 4 = Call_nfq_set_queue_flags (Some 2) 0 0 \<and>
   QueueFlags cfg_example = [Conntrack, UIDGid] \<and> cfg queue_example = Some cfg_example"
  by (simp add: Start_ok_eval)
    (simp add: queue_example_def cfg_example_def Conntrack_def UIDGid_def fold_flags_def)

lemma Start_rcvbufsiz_ignored: "Start (n\<lparr>C_nfnl_rcvbufsiz := f\<rparr>) qu = Start n qu"
  by (simp add: Start_def Let_def split: option.splits)

text \<open>
  Claim C9. The queue-depth call is made only when \<^verbatim>\<open>MaxPackets\<close> is greater than zero
  (and then with that value), and the two calls of the buffer-size step only when
  \<^verbatim>\<open>BufferSize\<close> is greater than zero; a run that reaches the descriptor step with
  \<^verbatim>\<open>MaxPackets > 0\<close> has made the queue-depth call, and a run that reaches the loop with
  \<^verbatim>\<open>BufferSize > 0\<close> has made the buffer-size call. What \<^verbatim>\<open>nfnl_rcvbufsiz\<close> returns
  changes nothing: the step has no error path.
\<close>

theorem Start_optional_steps:
  assumes "cfg qu = Some c"
  shows "(Call_nfq_set_queue_maxlen p k \<in> set (snd (snd (Start n qu))) \<longrightarrow>
            0 < MaxPackets c \<and> k = MaxPackets c) \<and>
         (Call_nfnl_rcvbufsiz pb kb \<in> set (snd (snd (Start n qu))) \<longrightarrow>
            0 < BufferSize c \<and> kb = BufferSize c) \<and>
         (Call_nfq_nfnlh pn \<in> set (snd (snd (Start n qu))) \<longrightarrow> 0 < BufferSize c) \<and>
         (Call_nfq_fd pf \<in> set (snd (snd (Start n qu))) \<and> 0 < MaxPackets c \<longrightarrow>
            Call_nfq_set_queue_maxlen (qh (fst (snd (Start n qu)))) (MaxPackets c)
              \<in> set (snd (snd (Start n qu)))) \<and>
         (Call_nfqueue_loop pl d \<in> set (snd (snd (Start n qu))) \<and> 0 < BufferSize c \<longrightarrow>
            Call_nfnl_rcvbufsiz (C_nfq_nfnlh n (h (fst (snd (Start n qu))))) (BufferSize c)
              \<in> set (snd (snd (Start n qu)))) \<and>
         Start (n\<lparr>C_nfnl_rcvbufsiz := f\<rparr>) qu = Start n qu"
proof -
  have 1: "Call_nfq_set_queue_maxlen p k \<in> set (snd (snd (Start n qu))) \<longrightarrow>
            0 < MaxPackets c \<and> k = MaxPackets c"
    using assms by (auto simp: Start_def Let_def split: option.splits if_splits)
  have 2: "Call_nfnl_rcvbufsiz pb kb \<in> set (snd (snd (Start n qu))) \<longrightarrow>
            0 < BufferSize c \<and> kb = BufferSize c"
    using assms by (auto simp: Start_def Let_def split: option.splits if_splits)
  have 3: "Call_nfq_nfnlh pn \<in> set (snd (snd (Start n qu))) \<longrightarrow> 0 < BufferSize c"
    using assms by (auto simp: Start_def Let_def split: option.splits if_splits)
  have 4: "Call_nfq_fd pf \<in> set (snd (snd (Start n qu))) \<and> 0 < MaxPackets c \<longrightarrow>
            Call_nfq_set_queue_maxlen (qh (fst (snd (Start n qu)))) (MaxPackets c)
              \<in> set (snd (snd (Start n qu)))"
    using assms by (auto simp: Start_def Let_def split: option.splits if_splits)
  have 5: "Call_nfqueue_loop pl d \<in> set (snd (snd (Start n qu))) \<and> 0 < BufferSize c \<longrightarrow>
            Call_nfnl_rcvbufsiz (C_nfq_nfnlh n (h (fst (snd (Start n qu))))) (BufferSize c)
              \<in> set (snd (snd (Start n qu)))"
    using assms by (auto simp: Start_def Let_def split: option.splits if_splits)
  from 1 2 3 4 5 Start_rcvbufsiz_ignored [of f n qu] show ?thesis by blast
qed

theorem Start_optional_steps_witness:
  "cfg queue_example = Some cfg_example \<and>
   0 < MaxPackets cfg_example \<and> 0 < BufferSize cfg_example \<and>
   Call_nfq_fd (Some 1) \<in> set (snd (snd (Start native_ok queue_example))) \<and>
   Call_nfqueue_loop (Some 1) 3 \<in> set (snd (snd (Start native_ok queue_example))) \<and>
   Call_nfq_nfnlh (Some 1) \<in> set (snd (snd (Start native_ok queue_example))) \<and>
   Call_nfq_set_queue_maxlen (Some 2) 100 \<in> set (snd (snd (Start native_ok queue_example))) \<and>
   Call_nfnl_rcvbufsiz (Some 4) 4096 \<in> set (snd (snd (Start native_ok queue_example)))"
proof -
  have c: "cfg queue_example = Some cfg_example"
    by (simp add: queue_example_def)
  have v: "0 < MaxPackets cfg_example" "0 < BufferSize cfg_example"
    "MaxPackets cfg_example = 100" "BufferSize cfg_example = 4096"
    by (simp_all add: cfg_example_def)
  have t: "Call_nfq_fd (Some 1) \<in> set (snd (snd (Start native_ok queue_example)))"
    "Call_nfqueue_loop (Some 1) 3 \<in> set (snd (snd (Start native_ok queue_example)))"
    "Call_nfq_nfnlh (Some 1) \<in> set (snd (snd (Start native_ok queue_example)))"
    by (simp_all add: Start_ok_eval)
  have s: "qh (fst (snd (Start native_ok queue_example))) = Some 2"
    "C_nfq_nfnlh native_ok (h (fst (snd (Start native_ok queue_example)))) = Some 4"
    by (simp_all add: Start_ok_eval) (simp_all add: native_ok_def)
  from Start_optional_steps [OF c, where n = native_ok and p = "Some 2" and k = 100
         and pb = "Some 4" and kb = 4096 and pn = "Some 1" and pf = "Some 1"
         and pl = "Some 1" and d = 3 and f = "\<lambda>p k. 0"] c v t
  show ?thesis by (simp add: s)
qed

section \<open>Verdicts\<close>

text \<open>
  Claim C2, as the code has it. \<^verbatim>\<open>Modify\<close> with an empty buffer does not return an error:
  it panics on the index expression \<^verbatim>\<open>buffer[0]\<close> (index 0, length 0), a bounds-checked
  access, before any native call. Whenever \<^verbatim>\<open>Modify\<close> does make a native call, the buffer
  is non-empty and the call is the verdict call with that buffer.
\<close>

theorem Modify_empty_buffer_panics:
  "Modify n p [] = (Panic (IndexOutOfRange 0 0), []) \<and>
   (x \<in> set (snd (Modify n p buffer)) \<longrightarrow>
      0 < length buffer \<and>
      (\<exists>pq. q p = Some pq \<and>
         x = Call_nfq_set_verdict (qh pq) (packet_id p) (C_NF_ACCEPT n)
               (of_nat (length buffer)) (Some buffer)))"
  by (auto simp: Modify_def setVerdict_def split: option.splits if_splits)

theorem Modify_empty_buffer_panics_witness:
  "Call_nfq_set_verdict (Some 2) 42 1 3 (Some [1, 2, 3])
     \<in> set (snd (Modify native_ok packet_example [1, 2, 3])) \<and>
   0 < length [1 :: u8, 2, 3] \<and>
   Modify native_ok packet_example [] = (Panic (IndexOutOfRange 0 0), [])"
proof -
  have m: "Call_nfq_set_verdict (Some 2) 42 1 3 (Some [1, 2, 3])
     \<in> set (snd (Modify native_ok packet_example [1, 2, 3]))"
    by (simp add: Modify_def setVerdict_def
          native_ok_def packet_example_def queue_started_def queue_example_def)
  from Modify_empty_buffer_panics [of native_ok packet_example
         "Call_nfq_set_verdict (Some 2) 42 1 3 (Some [1, 2, 3])" "[1, 2, 3]"] m
  show ?thesis by simp
qed

text \<open>
  Claim C2 as stated fails: on the empty buffer the result is a panic, not a returned
  (validation) error.
\<close>

theorem Modify_empty_buffer_counterexample:
  "fst (Modify native_ok packet_example []) = Panic (IndexOutOfRange 0 0) \<and>
   \<not> is_error (fst (Modify native_ok packet_example []))"
  by (simp add: Modify_def)

text \<open>
  Claim C5. For a packet with its back-reference set, \<^verbatim>\<open>Accept\<close> makes exactly one
  native verdict call, with the accept verdict, length 0 and no buffer; \<^verbatim>\<open>Drop\<close> exactly
  one with the drop verdict; \<^verbatim>\<open>Modify\<close>, on a non-empty buffer, exactly one with the
  accept verdict, the buffer and its length. Each call carries the packet's id. When the
  native call returns a negative value the result is the error whose message holds the
  decimal verdict and the decimal packet id (both read back from it), and still only one
  call was made.
\<close>

theorem verdict_one_native_call:
  assumes "q p = Some pq"
  shows "snd (Accept n p) =
           [Call_nfq_set_verdict (qh pq) (packet_id p) (C_NF_ACCEPT n) 0 None] \<and>
         snd (Drop n p) =
           [Call_nfq_set_verdict (qh pq) (packet_id p) (C_NF_DROP n) 0 None] \<and>
         (buffer \<noteq> [] \<longrightarrow>
            snd (Modify n p buffer) =
              [Call_nfq_set_verdict (qh pq) (packet_id p) (C_NF_ACCEPT n)
                 (of_nat (length buffer)) (Some buffer)] \<and>
            Modify n p buffer =
              setVerdict n p (C_NF_ACCEPT n) (of_nat (length buffer)) (Some buffer)) \<and>
         Accept n p = setVerdict n p (C_NF_ACCEPT n) 0 None \<and>
         Drop n p = setVerdict n p (C_NF_DROP n) 0 None \<and>
         length (snd (setVerdict n p v l b)) = 1 \<and>
         (C_nfq_set_verdict n (qh pq) (packet_id p) v l b < 0 \<longrightarrow>
            fst (setVerdict n p v l b) =
              Return_error (''Error setting verdict '' @ fmt_d (unat v) @
                            '' for packet '' @ fmt_d (unat (packet_id p)))) \<and>
         (\<not> C_nfq_set_verdict n (qh pq) (packet_id p) v l b < 0 \<longrightarrow>
            fst (setVerdict n p v l b) = Return_nil) \<and>
         read_d (fmt_d (unat v)) = unat v \<and>
         read_d (fmt_d (unat (packet_id p))) = unat (packet_id p)"
  using assms by (simp add: Accept_def Drop_def Modify_def setVerdict_def read_d_fmt_d)

theorem verdict_one_native_call_witness:
  "q packet_example = Some queue_started \<and>
   Accept native_verdict_fails packet_example =
     (Return_error ''Error setting verdict 1 for packet 42'',
      [Call_nfq_set_verdict (Some 2) 42 1 0 None]) \<and>
   Drop native_ok packet_example = (Return_nil, [Call_nfq_set_verdict (Some 2) 42 0 0 None]) \<and>
   Modify native_ok packet_example [7, 8] =
     (Return_nil, [Call_nfq_set_verdict (Some 2) 42 1 2 (Some [7, 8])])"
proof -
  have c: "q packet_example = Some queue_started"
    by (simp add: packet_example_def)
  have f: "fmt_d (Suc 0) = ''1''" "fmt_d 42 = ''42''"
    by (simp_all add: fmt_d.simps)
  have neg: "C_nfq_set_verdict native_verdict_fails (qh queue_started)
               (packet_id packet_example) (C_NF_ACCEPT native_verdict_fails) 0 None < 0"
    by (simp add: native_verdict_fails_def native_ok_def packet_example_def
          queue_started_def queue_example_def)
  have pos: "\<not> C_nfq_set_verdict native_ok p i v l b < 0" for p i v l b
    by (simp add: native_ok_def)
  have v: "C_NF_ACCEPT native_verdict_fails = 1" "C_NF_ACCEPT native_ok = 1"
    "C_NF_DROP native_ok = 0" "packet_id packet_example = 42" "qh queue_started = Some 2"
    by (simp_all add: native_verdict_fails_def native_ok_def packet_example_def
          queue_started_def queue_example_def)
  from verdict_one_native_call [OF c, of native_verdict_fails "[7, 8]"
         "C_NF_ACCEPT native_verdict_fails" 0 None]
       verdict_one_native_call [OF c, of native_ok "[7, 8]" "C_NF_DROP native_ok" 0 None]
       verdict_one_native_call [OF c, of native_ok "[7, 8]" "C_NF_ACCEPT native_ok" 2 "Some [7, 8]"]
       c neg pos
  show ?thesis
    by (simp add: v f prod_eq_iff)
qed

section \<open>Stop\<close>

text \<open>
  Claim C3, as the code has it. \<^verbatim>\<open>Stop\<close> calls close descriptor, destroy binding, close
  context in that order and stops at the first that fails: it returns that step's own
  error and does not make the calls after it. When all three succeed it returns
  \<^verbatim>\<open>nil\<close> after making all three. The three errors are pairwise different.
\<close>

theorem Stop_aborts_at_first_failure:
  "(C_close n (fd qu) < 0 \<longrightarrow>
      Stop n qu = (Return_error ''Error closing fd'', [Call_close (fd qu)])) \<and>
   (\<not> C_close n (fd qu) < 0 \<and> C_nfq_destroy_queue n (qh qu) < 0 \<longrightarrow>
      Stop n qu = (Return_error ''Error in nfq_destroy_queue'',
                   [Call_close (fd qu), Call_nfq_destroy_queue (qh qu)])) \<and>
   (\<not> C_close n (fd qu) < 0 \<and> \<not> C_nfq_destroy_queue n (qh qu) < 0 \<and>
    C_nfq_close n (h qu) < 0 \<longrightarrow>
      Stop n qu = (Return_error ''Error in nfq_close'',
                   [Call_close (fd qu), Call_nfq_destroy_queue (qh qu), Call_nfq_close (h qu)])) \<and>
   (\<not> C_close n (fd qu) < 0 \<and> \<not> C_nfq_destroy_queue n (qh qu) < 0 \<and>
    \<not> C_nfq_close n (h qu) < 0 \<longrightarrow>
      Stop n qu = (Return_nil,
                   [Call_close (fd qu), Call_nfq_destroy_queue (qh qu), Call_nfq_close (h qu)])) \<and>
   Stop n qu = run_steps n (spec_Stop_steps qu) \<and>
   distinct (map call_error (spec_Stop_steps qu))"
  by (simp add: Stop_def spec_Stop_steps_def)

theorem Stop_aborts_at_first_failure_witness:
  "Stop native_close_fails queue_started = (Return_error ''Error closing fd'', [Call_close 3]) \<and>
   Stop native_destroy_fails queue_started =
     (Return_error ''Error in nfq_destroy_queue'',
      [Call_close 3, Call_nfq_destroy_queue (Some 2)]) \<and>
   Stop native_nfq_close_fails queue_started =
     (Return_error ''Error in nfq_close'',
      [Call_close 3, Call_nfq_destroy_queue (Some 2), Call_nfq_close (Some 1)]) \<and>
   Stop native_ok queue_started =
     (Return_nil, [Call_close 3, Call_nfq_destroy_queue (Some 2), Call_nfq_close (Some 1)])"
  using Stop_aborts_at_first_failure [of native_close_fails queue_started]
        Stop_aborts_at_first_failure [of native_destroy_fails queue_started]
        Stop_aborts_at_first_failure [of native_nfq_close_fails queue_started]
        Stop_aborts_at_first_failure [of native_ok queue_started]
  by (simp add: native_close_fails_def native_ok_def queue_started_def queue_example_def
       native_destroy_fails_def native_nfq_close_fails_def)

text \<open>
  Claim C3 as stated fails: when closing the descriptor fails, \<^verbatim>\<open>Stop\<close> makes no
  further call, so the binding is not destroyed and the context is not closed.
\<close>

theorem Stop_continues_counterexample:
  "C_close native_close_fails (fd queue_started) < 0 \<and>
   snd (Stop native_close_fails queue_started) = [Call_close 3] \<and>
   Call_nfq_destroy_queue (qh queue_started) \<notin> set (snd (Stop native_close_fails queue_started)) \<and>
   Call_nfq_close (h queue_started) \<notin> set (snd (Stop native_close_fails queue_started))"
  by (simp add: Stop_def native_close_fails_def native_ok_def queue_started_def queue_example_def)

section \<open>Packet metadata\<close>

text \<open>
  Claim C7. On a hardware address of at least six bytes \<^verbatim>\<open>MACAddr\<close> returns a string of
  17 characters: for each of the first six bytes two upper-case hexadecimal digits, high
  digit first, with a colon between consecutive pairs; bytes after the sixth do not
  matter. For the bytes AA BB CC DD EE FF the string is \<open>AA:BB:CC:DD:EE:FF\<close>.
\<close>

theorem MACAddr_six_hex_pairs:
  assumes "6 \<le> length (HWAddr m)"
  shows "\<exists>s. MACAddr m = Inr s \<and> length s = 17 \<and>
           (\<forall>i<6. hex_value (s ! (3 * i)) = Some (unat (HWAddr m ! i) div 16) \<and>
                   hex_value (s ! (3 * i + 1)) = Some (unat (HWAddr m ! i) mod 16)) \<and>
           (\<forall>i<5. s ! (3 * i + 2) = CHR '':'') \<and>
           MACAddr (m\<lparr>HWAddr := take 6 (HWAddr m)\<rparr>) = Inr s \<and>
           (take 6 (HWAddr m) = [0xAA, 0xBB, 0xCC, 0xDD, 0xEE, 0xFF] \<longrightarrow>
              s = ''AA:BB:CC:DD:EE:FF'')"
proof -
  let ?b = "\<lambda>i. HWAddr m ! i"
  let ?s = "[hex_upper (unat (?b 0) div 16), hex_upper (unat (?b 0) mod 16), CHR '':'',
             hex_upper (unat (?b 1) div 16), hex_upper (unat (?b 1) mod 16), CHR '':'',
             hex_upper (unat (?b 2) div 16), hex_upper (unat (?b 2) mod 16), CHR '':'',
             hex_upper (unat (?b 3) div 16), hex_upper (unat (?b 3) mod 16), CHR '':'',
             hex_upper (unat (?b 4) div 16), hex_upper (unat (?b 4) mod 16), CHR '':'',
             hex_upper (unat (?b 5) div 16), hex_upper (unat (?b 5) mod 16)]"
  have eq: "MACAddr m = Inr ?s"
    using assms by (simp add: MACAddr_def fmt_02X_def)
  have len: "length ?s = 17" by simp
  have six: "i = 0 \<or> i = 1 \<or> i = 2 \<or> i = 3 \<or> i = 4 \<or> i = 5" if "i < 6" for i :: nat
    using that by arith
  have five: "i = 0 \<or> i = 1 \<or> i = 2 \<or> i = 3 \<or> i = 4" if "i < 5" for i :: nat
    using that by arith
  have dig: "\<forall>i<6. hex_value (?s ! (3 * i)) = Some (unat (?b i) div 16) \<and>
                   hex_value (?s ! (3 * i + 1)) = Some (unat (?b i) mod 16)"
  proof (intro allI impI)
    fix i :: nat assume "i < 6"
    from six [OF this] show "hex_value (?s ! (3 * i)) = Some (unat (?b i) div 16) \<and>
                   hex_value (?s ! (3 * i + 1)) = Some (unat (?b i) mod 16)"
      by (elim disjE) (simp_all add: fmt_02X_digits)
  qed
  have col: "\<forall>i<5. ?s ! (3 * i + 2) = CHR '':''"
  proof (intro allI impI)
    fix i :: nat assume "i < 5"
    from five [OF this] show "?s ! (3 * i + 2) = CHR '':''"
      by (elim disjE) simp_all
  qed
  have tk: "MACAddr (m\<lparr>HWAddr := take 6 (HWAddr m)\<rparr>) = Inr ?s"
    using assms by (simp add: MACAddr_def fmt_02X_def)
  have ex: "?s = ''AA:BB:CC:DD:EE:FF''"
    if t: "take 6 (HWAddr m) = [0xAA, 0xBB, 0xCC, 0xDD, 0xEE, 0xFF]"
  proof -
    have "\<forall>i<6. ?b i = take 6 (HWAddr m) ! i" by simp
    then have "?b 0 = 0xAA" "?b 1 = 0xBB" "?b 2 = 0xCC" "?b 3 = 0xDD" "?b 4 = 0xEE" "?b 5 = 0xFF"
      unfolding t by simp_all
    then show ?thesis by (simp add: hex_upper_def)
  qed
  from eq len dig col tk ex show ?thesis by blast
qed

theorem MACAddr_six_hex_pairs_witness:
  "6 \<le> length (HWAddr meta_example) \<and> MACAddr meta_example = Inr ''AA:BB:CC:DD:EE:FF''"
proof -
  have l: "6 \<le> length (HWAddr meta_example)"
    by (simp add: meta_example_def)
  have t: "take 6 (HWAddr meta_example) = [0xAA, 0xBB, 0xCC, 0xDD, 0xEE, 0xFF]"
    by (simp add: meta_example_def)
  from MACAddr_six_hex_pairs [OF l] t l show ?thesis by auto
qed

text \<open>
  Claim C8. Each of the four interface-name accessors returns the name of the interface
  when the lookup of its index succeeds and the empty string when the lookup fails; the
  result is a string in both cases, never an error.
\<close>

theorem DevName_empty_on_failure:
  "(net (uint (InDev m)) = Inr iface \<longrightarrow> InDevName net m = Name iface) \<and>
   (net (uint (InDev m)) = Inl e \<longrightarrow> InDevName net m = '''') \<and>
   (net (uint (OutDev m)) = Inr iface \<longrightarrow> OutDevName net m = Name iface) \<and>
   (net (uint (OutDev m)) = Inl e \<longrightarrow> OutDevName net m = '''') \<and>
   (net (uint (PhysInDev m)) = Inr iface \<longrightarrow> PhysInDevName net m = Name iface) \<and>
   (net (uint (PhysInDev m)) = Inl e \<longrightarrow> PhysInDevName net m = '''') \<and>
   (net (uint (PhysOutDev m)) = Inr iface \<longrightarrow> PhysOutDevName net m = Name iface) \<and>
   (net (uint (PhysOutDev m)) = Inl e \<longrightarrow> PhysOutDevName net m = '''')"
  by (simp add: InDevName_def OutDevName_def PhysInDevName_def PhysOutDevName_def)

theorem DevName_empty_on_failure_witness:
  "InDevName net_example meta_example = ''lo'' \<and>
   OutDevName net_example meta_example = '''' \<and>
   PhysInDevName net_example meta_example = '''' \<and>
   PhysOutDevName net_example meta_example = '''' \<and>
   InDevName net_example meta_other = '''' \<and>
   OutDevName net_example meta_other = ''lo'' \<and>
   PhysInDevName net_example meta_other = ''lo'' \<and>
   PhysOutDevName net_example meta_other = ''lo''"
proof -
  have a: "net_example (uint (InDev meta_example)) = Inr \<lparr>Index = 1, Name = ''lo''\<rparr>"
    "net_example (uint (OutDev meta_example)) = Inl ''no such network interface''"
    "net_example (uint (PhysInDev meta_example)) = Inl ''no such network interface''"
    "net_example (uint (PhysOutDev meta_example)) = Inl ''no such network interface''"
    by (simp_all add: net_example_def meta_example_def)
  have b: "net_example (uint (InDev meta_other)) = Inl ''no such network interface''"
    "net_example (uint (OutDev meta_other)) = Inr \<lparr>Index = 1, Name = ''lo''\<rparr>"
    "net_example (uint (PhysInDev meta_other)) = Inr \<lparr>Index = 1, Name = ''lo''\<rparr>"
    "net_example (uint (PhysOutDev meta_other)) = Inr \<lparr>Index = 1, Name = ''lo''\<rparr>"
    by (simp_all add: net_example_def meta_other_def meta_example_def)
  from DevName_empty_on_failure [of net_example meta_example "\<lparr>Index = 1, Name = ''lo''\<rparr>"
         "''no such network interface''"]
       DevName_empty_on_failure [of net_example meta_other "\<lparr>Index = 1, Name = ''lo''\<rparr>"
         "''no such network interface''"]
  show ?thesis by (simp add: a b)
qed

section \<open>NewQueue and the registry\<close>

text \<open>
  Claim C6. \<^verbatim>\<open>NewQueue\<close> allocates a new queue holding the given id and handler (and the
  given configuration), leaves the queues already allocated as they are, and registers
  the new instance under the id: looking the id up afterwards gives that instance.
  \<^verbatim>\<open>Register\<close> overwrites whatever the registry held for the id, and of two queues
  created under one id the lookup gives the second.
\<close>

theorem NewQueue_registers:
  "Lookup (queueRegistry (snd (NewQueue w i hdl c0))) i = Some (fst (NewQueue w i hdl c0)) \<and>
   fst (NewQueue w i hdl c0) = length (heap w) \<and>
   take (length (heap w)) (heap (snd (NewQueue w i hdl c0))) = heap w \<and>
   ID (heap (snd (NewQueue w i hdl c0)) ! fst (NewQueue w i hdl c0)) = i \<and>
   handler (heap (snd (NewQueue w i hdl c0)) ! fst (NewQueue w i hdl c0)) = hdl \<and>
   (cfg (heap (snd (NewQueue w i hdl (Some c))) ! fst (NewQueue w i hdl (Some c)))) = Some c \<and>
   Lookup (Register r i a) i = Some a \<and>
   Lookup (Register (Register r i a) i b) i = Some b \<and>
   Lookup (queueRegistry (snd (NewQueue (snd (NewQueue w i hdl c0)) i hdl' c1))) i
     = Some (Suc (length (heap w)))"
  by (simp add: NewQueue_def Let_def Register_def Lookup_def)

text \<open>
  Claim C10. \<^verbatim>\<open>NewQueue\<close> with a nil configuration is \<^verbatim>\<open>NewQueue\<close> with the
  configuration \<^verbatim>\<open>MaxPackets = 0\<close>, no flags, \<^verbatim>\<open>BufferSize = 0\<close>: the queue's configuration
  pointer is not nil, \<^verbatim>\<open>Start\<close> on that queue never panics, and it runs only the steps
  open context, bind queue id, set mode, get descriptor, run loop.
\<close>

theorem NewQueue_nil_cfg:
  "NewQueue w i hdl None =
     NewQueue w i hdl (Some \<lparr>MaxPackets = 0, QueueFlags = [], BufferSize = 0\<rparr>) \<and>
   cfg (heap (snd (NewQueue w i hdl None)) ! fst (NewQueue w i hdl None)) =
     Some \<lparr>MaxPackets = 0, QueueFlags = [], BufferSize = 0\<rparr> \<and>
   \<not> is_panic (fst (Start n (heap (snd (NewQueue w i hdl None)) ! fst (NewQueue w i hdl None)))) \<and>
   (fst (Start n (heap (snd (NewQueue w i hdl None)) ! fst (NewQueue w i hdl None))),
    snd (snd (Start n (heap (snd (NewQueue w i hdl None)) ! fst (NewQueue w i hdl None))))) =
     run_steps n
       [Call_nfq_open,
        Call_nfqueue_create_queue (C_nfq_open n) i,
        Call_nfq_set_mode (C_nfqueue_create_queue n (C_nfq_open n) i)
          (C_NFQNL_COPY_PACKET n) (C_MAX_PACKET_SIZE n),
        Call_nfq_fd (C_nfq_open n),
        Call_nfqueue_loop (C_nfq_open n) (C_nfq_fd n (C_nfq_open n))]"
proof -
  let ?z = "\<lparr>MaxPackets = 0, QueueFlags = [], BufferSize = 0\<rparr>"
  let ?nq = "heap (snd (NewQueue w i hdl None)) ! fst (NewQueue w i hdl None)"
  have a: "NewQueue w i hdl None = NewQueue w i hdl (Some ?z)"
    by (simp add: NewQueue_def)
  have q: "?nq = \<lparr>ID = i, handler = hdl, cfg = Some ?z, h = None, qh = None, fd = 0\<rparr>"
    by (simp add: NewQueue_def Let_def)
  have b: "cfg ?nq = Some ?z"
    by (simp add: q)
  have s: "spec_Start_steps n ?nq ?z =
       [Call_nfq_open,
        Call_nfqueue_create_queue (C_nfq_open n) i,
        Call_nfq_set_mode (C_nfqueue_create_queue n (C_nfq_open n) i)
          (C_NFQNL_COPY_PACKET n) (C_MAX_PACKET_SIZE n),
        Call_nfq_fd (C_nfq_open n),
        Call_nfqueue_loop (C_nfq_open n) (C_nfq_fd n (C_nfq_open n))]"
    by (simp add: q spec_Start_steps_def Let_def)
  have r: "(fst (Start n ?nq), snd (snd (Start n ?nq))) = run_steps n (spec_Start_steps n ?nq ?z)"
    using b by (rule Start_run_steps)
  have p: "\<not> is_panic (fst (Start n ?nq))"
    using r run_steps_no_panic [of n "spec_Start_steps n ?nq ?z"] by (simp add: prod_eq_iff)
  from a b p r show ?thesis unfolding s by blast
qed

end
